theory Spec2Isabelle
  imports Complex_Main
begin

section \<open>JavaScript values as the two servers use them\<close>

text \<open>
  Both programs are TypeScript handlers registered on the MCP \<open>Server\<close> object: the weather
  server (\<open>src/index.ts\<close>) and the GitHub diff server (the second source file). Their
  arguments and the upstream documents are untyped at run time (\<open>any\<close>), so the model carries
  JavaScript values and lets every property read and method call fail the way the engine does.

  Modelling conventions.
  \<^item> A string is a \<open>string\<close> of bytes: the UTF-8 text that the transport writes. The non-ASCII
    characters of the template literals are written as their UTF-8 bytes and are only ever
    concatenated. \<open>substring(0, 7)\<close> counts UTF-16 code units in JavaScript and bytes here; the
    two agree on ASCII text such as a commit hash.
  \<^item> A number is a real, or \<open>NaN\<close>. The rounding of IEEE doubles, the infinities and the
    negative zero are outside the model, as is the exponent notation that JavaScript prints for
    magnitudes of \<open>1e21\<close> and above or below \<open>1e-6\<close>.
  \<^item> An object is the list of its own properties; none of the property names read by the two
    programs is inherited from a prototype.
  \<^item> A thrown value is a \<open>js_error\<close>; a function that may throw returns \<open>js_error + 'a\<close>.
\<close>

datatype js_error =
    JsError string   \<comment> \<open>an instance of \<open>Error\<close> (also \<open>TypeError\<close>, \<open>SyntaxError\<close>), with its message\<close>
  | NonError         \<comment> \<open>a thrown value that is not an instance of \<open>Error\<close>\<close>

datatype jsval =
    JUndefined
  | JNull
  | JBool bool
  | JNum real
  | JStr string
  | JArr "jsval list"
  | JObj "(string \<times> jsval) list"

datatype number = NaN | Finite real

datatype key = Prop string | Index nat

definition bind :: "js_error + 'a \<Rightarrow> ('a \<Rightarrow> js_error + 'b) \<Rightarrow> js_error + 'b" where
  "bind m f = (case m of Inl e \<Rightarrow> Inl e | Inr x \<Rightarrow> f x)"

subsection \<open>Conversion to string\<close>

definition digit_char :: "nat \<Rightarrow> char" where
  "digit_char d = char_of (48 + d)"

fun nat_to_string :: "nat \<Rightarrow> string" where
  "nat_to_string n =
     (if n < 10 then [digit_char n] else nat_to_string (n div 10) @ [digit_char (n mod 10)])"

declare nat_to_string.simps [simp del]

definition int_to_string :: "int \<Rightarrow> string" where
  "int_to_string i = (if i < 0 then ''-'' @ nat_to_string (nat (- i)) else nat_to_string (nat i))"

fun frac_digits :: "nat \<Rightarrow> real \<Rightarrow> string" where
  "frac_digits 0 x = []"
| "frac_digits (Suc k) x =
     (if x = 0 then []
      else digit_char (nat \<lfloor>x * 10\<rfloor>) # frac_digits k (x * 10 - of_int \<lfloor>x * 10\<rfloor>))"

text \<open>\<open>Number::toString\<close>: an integral value prints its decimal digits, any other value its
  sign, integer part and the digits of its decimal expansion (at most 20 of them).\<close>

fun Number_toString :: "number \<Rightarrow> string" where
  "Number_toString NaN = ''NaN''"
| "Number_toString (Finite r) =
     (if r = of_int \<lfloor>r\<rfloor> then int_to_string \<lfloor>r\<rfloor>
      else (if r < 0 then ''-'' else '''') @ nat_to_string (nat \<lfloor>\<bar>r\<bar>\<rfloor>) @ ''.''
           @ frac_digits 20 (\<bar>r\<bar> - of_int \<lfloor>\<bar>r\<bar>\<rfloor>))"

text \<open>\<open>ToString\<close>, the conversion a template literal applies to each \<open>${...}\<close>. An array
  joins its elements with commas, \<open>null\<close> and \<open>undefined\<close> elements printing as nothing.\<close>

fun ToString :: "jsval \<Rightarrow> string"
  and Array_join :: "jsval list \<Rightarrow> string"
  and join_element :: "jsval \<Rightarrow> string" where
  "ToString JUndefined = ''undefined''"
| "ToString JNull = ''null''"
| "ToString (JBool b) = (if b then ''true'' else ''false'')"
| "ToString (JNum r) = Number_toString (Finite r)"
| "ToString (JStr s) = s"
| "ToString (JArr vs) = Array_join vs"
| "ToString (JObj ps) = ''[object Object]''"
| "Array_join [] = []"
| "Array_join [v] = join_element v"
| "Array_join (v # w # vs) = join_element v @ '','' @ Array_join (w # vs)"
| "join_element JUndefined = []"
| "join_element JNull = []"
| "join_element (JBool b) = ToString (JBool b)"
| "join_element (JNum r) = ToString (JNum r)"
| "join_element (JStr s) = ToString (JStr s)"
| "join_element (JArr vs) = ToString (JArr vs)"
| "join_element (JObj ps) = ToString (JObj ps)"

subsection \<open>Conversion to number\<close>

definition is_space :: "char \<Rightarrow> bool" where
  "is_space c = (c = CHR '' '' \<or> c = CHR 0x09 \<or> c = CHR 0x0A \<or> c = CHR 0x0B \<or> c = CHR 0x0C
     \<or> c = CHR 0x0D)"

definition is_digit :: "char \<Rightarrow> bool" where
  "is_digit c = (48 \<le> (of_char c :: nat) \<and> (of_char c :: nat) \<le> 57)"

definition is_upper :: "char \<Rightarrow> bool" where
  "is_upper c = (65 \<le> (of_char c :: nat) \<and> (of_char c :: nat) \<le> 90)"

definition is_lower :: "char \<Rightarrow> bool" where
  "is_lower c = (97 \<le> (of_char c :: nat) \<and> (of_char c :: nat) \<le> 122)"

definition trim :: "string \<Rightarrow> string" where
  "trim s = rev (dropWhile is_space (rev (dropWhile is_space s)))"

definition digits_value :: "string \<Rightarrow> nat" where
  "digits_value ds = foldl (\<lambda>acc c. acc * 10 + (of_char c - 48)) 0 ds"

definition unsigned_decimal :: "string \<Rightarrow> number" where
  "unsigned_decimal s =
     (let ip = takeWhile is_digit s; rest = dropWhile is_digit s in
      if rest = [] then (if ip = [] then NaN else Finite (of_nat (digits_value ip)))
      else if hd rest = CHR ''.'' \<and> list_all is_digit (tl rest) \<and> (ip \<noteq> [] \<or> tl rest \<noteq> [])
      then Finite (of_nat (digits_value ip)
                   + of_nat (digits_value (tl rest)) / 10 ^ length (tl rest))
      else NaN)"

text \<open>\<open>StringToNumber\<close> on the decimal literals: surrounding white space is dropped, the
  empty string is \<open>0\<close>, a sign may precede the digits. The hexadecimal, exponent and
  \<open>Infinity\<close> forms are outside the model.\<close>

definition StringToNumber :: "string \<Rightarrow> number" where
  "StringToNumber s =
     (let t = trim s in
      if t = [] then Finite 0
      else if hd t = CHR ''-'' then
        (case unsigned_decimal (tl t) of NaN \<Rightarrow> NaN | Finite r \<Rightarrow> Finite (- r))
      else if hd t = CHR ''+'' then unsigned_decimal (tl t)
      else unsigned_decimal t)"

fun ToNumber :: "jsval \<Rightarrow> number" where
  "ToNumber JUndefined = NaN"
| "ToNumber JNull = Finite 0"
| "ToNumber (JBool b) = Finite (if b then 1 else 0)"
| "ToNumber (JNum r) = Finite r"
| "ToNumber (JStr s) = StringToNumber s"
| "ToNumber (JArr vs) = StringToNumber (ToString (JArr vs))"
| "ToNumber (JObj ps) = StringToNumber (ToString (JObj ps))"

text \<open>Truthiness, as tested by \<open>!x\<close> and \<open>x || y\<close>.\<close>

fun truthy :: "jsval \<Rightarrow> bool" where
  "truthy JUndefined = False"
| "truthy JNull = False"
| "truthy (JBool b) = b"
| "truthy (JNum r) = (r \<noteq> 0)"
| "truthy (JStr s) = (s \<noteq> [])"
| "truthy (JArr vs) = True"
| "truthy (JObj ps) = True"

subsection \<open>Arithmetic on numbers\<close>

fun Math_round :: "number \<Rightarrow> number" where
  "Math_round NaN = NaN"
| "Math_round (Finite r) = Finite (of_int \<lfloor>r + 1 / 2\<rfloor>)"

fun Math_abs :: "number \<Rightarrow> number" where
  "Math_abs NaN = NaN"
| "Math_abs (Finite r) = Finite \<bar>r\<bar>"

fun num_minus :: "number \<Rightarrow> number \<Rightarrow> number" where
  "num_minus (Finite a) (Finite b) = Finite (a - b)"
| "num_minus _ _ = NaN"

fun num_times :: "number \<Rightarrow> number \<Rightarrow> number" where
  "num_times (Finite a) (Finite b) = Finite (a * b)"
| "num_times _ _ = NaN"

fun num_greater :: "number \<Rightarrow> number \<Rightarrow> bool" where
  "num_greater (Finite a) (Finite b) = (a > b)"
| "num_greater _ _ = False"

subsection \<open>Property reads and method calls\<close>

definition cannot_read :: "jsval \<Rightarrow> string \<Rightarrow> js_error" where
  "cannot_read v k =
     JsError (''Cannot read properties of '' @ ToString v @ '' (reading '' @ [CHR 0x27] @ k
              @ [CHR 0x27] @ '')'')"

definition not_a_function :: "string \<Rightarrow> js_error" where
  "not_a_function e = JsError (e @ '' is not a function'')"

definition key_name :: "key \<Rightarrow> string" where
  "key_name k = (case k of Prop p \<Rightarrow> p | Index i \<Rightarrow> nat_to_string i)"

definition own_property :: "(string \<times> jsval) list \<Rightarrow> string \<Rightarrow> jsval" where
  "own_property ps k = (case map_of ps k of None \<Rightarrow> JUndefined | Some v \<Rightarrow> v)"

text \<open>\<open>v.p\<close> and \<open>v[i]\<close>: reading from \<open>undefined\<close> or \<open>null\<close> throws a \<open>TypeError\<close>; a property
  that is not there reads as \<open>undefined\<close>.\<close>

fun get :: "jsval \<Rightarrow> key \<Rightarrow> js_error + jsval" where
  "get JUndefined k = Inl (cannot_read JUndefined (key_name k))"
| "get JNull k = Inl (cannot_read JNull (key_name k))"
| "get (JObj ps) k = Inr (own_property ps (key_name k))"
| "get (JArr vs) (Index i) = Inr (if i < length vs then vs ! i else JUndefined)"
| "get (JStr s) (Index i) = Inr (if i < length s then JStr [s ! i] else JUndefined)"
| "get _ _ = Inr JUndefined"

fun get_path :: "jsval \<Rightarrow> key list \<Rightarrow> js_error + jsval" where
  "get_path v [] = Inr v"
| "get_path v (k # ks) = bind (get v k) (\<lambda>x. get_path x ks)"

text \<open>The receiver of a string method (\<open>split\<close>, \<open>startsWith\<close>, \<open>substring\<close>) and of an
  array method (\<open>filter\<close>, \<open>reduce\<close>); \<open>e\<close> is the source text of the receiver, which the
  engine quotes in its message.\<close>

fun string_receiver :: "string \<Rightarrow> string \<Rightarrow> jsval \<Rightarrow> js_error + string" where
  "string_receiver e m (JStr s) = Inr s"
| "string_receiver e m JUndefined = Inl (cannot_read JUndefined m)"
| "string_receiver e m JNull = Inl (cannot_read JNull m)"
| "string_receiver e m _ = Inl (not_a_function (e @ ''.'' @ m))"

fun array_receiver :: "string \<Rightarrow> string \<Rightarrow> jsval \<Rightarrow> js_error + jsval list" where
  "array_receiver e m (JArr vs) = Inr vs"
| "array_receiver e m JUndefined = Inl (cannot_read JUndefined m)"
| "array_receiver e m JNull = Inl (cannot_read JNull m)"
| "array_receiver e m _ = Inl (not_a_function (e @ ''.'' @ m))"

text \<open>\<open>s.split(c)\<close> for a one-character separator: the pieces between the separators, one
  piece (the empty string) for the empty string.\<close>

fun split :: "char \<Rightarrow> string \<Rightarrow> string list" where
  "split c [] = [[]]"
| "split c (x # xs) =
     (if x = c then [] # split c xs
      else (case split c xs of [] \<Rightarrow> [[x]] | p # ps \<Rightarrow> (x # p) # ps))"

definition startsWith :: "string \<Rightarrow> string \<Rightarrow> bool" where
  "startsWith s p = (take (length p) s = p)"

subsection \<open>\<open>encodeURIComponent\<close>\<close>

definition uri_unreserved :: "char \<Rightarrow> bool" where
  "uri_unreserved c =
     (is_upper c \<or> is_lower c \<or> is_digit c \<or> c \<in> set ''-_.!~*()'' \<or> c = CHR 0x27)"

definition hex_digit :: "nat \<Rightarrow> char" where
  "hex_digit d = (''0123456789ABCDEF'' ! d)"

definition percent_encode :: "char \<Rightarrow> string" where
  "percent_encode c =
     (if uri_unreserved c then [c]
      else [CHR ''%'', hex_digit (of_char c div 16), hex_digit (of_char c mod 16)])"

definition encodeURIComponent :: "jsval \<Rightarrow> string" where
  "encodeURIComponent v = concat (map percent_encode (ToString v))"

section \<open>Requests, responses and envelopes\<close>

text \<open>A \<open>CallTool\<close> request carries the tool name and, optionally, the arguments object
  (\<open>request.params.arguments\<close> is \<open>undefined\<close> when the caller sent none).\<close>

record request =
  name :: string
  arguments :: "(string \<times> jsval) list option"

text \<open>A content block \<open>{type, text}\<close> and the envelope \<open>{content, isError}\<close>; \<open>isError\<close> is
  \<open>None\<close> when the returned object has no such property.\<close>

record content_block =
  ctype :: string
  ctext :: string

record envelope =
  content :: "content_block list"
  isError :: "bool option"

text \<open>A handler is an \<open>async\<close> function: its promise resolves with an envelope, or it rejects
  with the thrown value, which the protocol library receives in place of an envelope.\<close>

datatype outcome = Returned envelope | Thrown js_error

definition text_result :: "string \<Rightarrow> envelope" where
  "text_result t = \<lparr>content = [\<lparr>ctype = ''text'', ctext = t\<rparr>], isError = None\<rparr>"

text \<open>The \<open>catch\<close> block, the same in both servers.\<close>

definition errorMessage :: "js_error \<Rightarrow> string" where
  "errorMessage error = (case error of JsError m \<Rightarrow> m | NonError \<Rightarrow> ''Unknown error occurred'')"

definition error_envelope :: "js_error \<Rightarrow> envelope" where
  "error_envelope error =
     \<lparr>content = [\<lparr>ctype = ''text'', ctext = ''Error: '' @ errorMessage error\<rparr>],
      isError = Some True\<rparr>"

definition arg :: "(string \<times> jsval) list \<Rightarrow> string \<Rightarrow> jsval" where
  "arg args k = own_property args k"

section \<open>The weather server\<close>

subsection \<open>The upstream\<close>

text \<open>What \<open>fetch\<close> gives for a URL: a rejected promise (network failure), or a response with
  its status line and the outcome of \<open>response.json()\<close>.\<close>

record response =
  status :: nat
  statusText :: string
  json :: "js_error + jsval"

datatype fetch_result = Rejected js_error | Resolved response

definition ok :: "response \<Rightarrow> bool" where
  "ok r = (200 \<le> status r \<and> status r \<le> 299)"

text \<open>The environment of one invocation: the variable \<open>OPENWEATHER_API_KEY\<close>, the upstream
  behind \<open>fetch\<close>, and, for two fetches awaited jointly that both fail, whether the second
  one is the first to reject.\<close>

record weather_env =
  OPENWEATHER_API_KEY :: "string option"
  fetch :: "string \<Rightarrow> fetch_result"
  second_rejects_first :: bool

definition WEATHER_API_KEY :: "weather_env \<Rightarrow> string" where
  "WEATHER_API_KEY env = (case OPENWEATHER_API_KEY env of None \<Rightarrow> [] | Some k \<Rightarrow> k)"

definition WEATHER_API_BASE :: string where
  "WEATHER_API_BASE = ''https://api.openweathermap.org/data/2.5''"

record WeatherData =
  temperature :: number
  feels_like :: number
  condition :: jsval
  description :: jsval
  humidity :: jsval
  wind_speed :: number
  city :: jsval
  country :: jsval

subsection \<open>\<open>fetchWeather\<close>\<close>

definition weather_url :: "weather_env \<Rightarrow> jsval \<Rightarrow> string" where
  "weather_url env c =
     WEATHER_API_BASE @ ''/weather?q='' @ encodeURIComponent c @ ''&appid='' @ WEATHER_API_KEY env
     @ ''&units=metric''"

text \<open>The object literal that \<open>fetchWeather\<close> returns, its properties evaluated in order.\<close>

definition weather_of_json :: "jsval \<Rightarrow> js_error + WeatherData" where
  "weather_of_json data =
     bind (get_path data [Prop ''main'', Prop ''temp'']) (\<lambda>temp.
     bind (get_path data [Prop ''main'', Prop ''feels_like'']) (\<lambda>feels.
     bind (get_path data [Prop ''weather'', Index 0, Prop ''main'']) (\<lambda>cond.
     bind (get_path data [Prop ''weather'', Index 0, Prop ''description'']) (\<lambda>descr.
     bind (get_path data [Prop ''main'', Prop ''humidity'']) (\<lambda>hum.
     bind (get_path data [Prop ''wind'', Prop ''speed'']) (\<lambda>speed.
     bind (get_path data [Prop ''name'']) (\<lambda>nm.
     bind (get_path data [Prop ''sys'', Prop ''country'']) (\<lambda>ctry.
     Inr \<lparr>temperature = Math_round (ToNumber temp),
          feels_like = Math_round (ToNumber feels),
          condition = cond,
          description = descr,
          humidity = hum,
          wind_speed = Math_round (num_times (ToNumber speed) (Finite (36 / 10))),
          city = nm,
          country = ctry\<rparr>))))))))"

text \<open>\<open>fetchWeather\<close> returns the URLs it requested together with its result.\<close>

definition fetchWeather :: "weather_env \<Rightarrow> jsval \<Rightarrow> string list \<times> (js_error + WeatherData)" where
  "fetchWeather env c =
     (let url = weather_url env c in
      ([url],
       case fetch env url of
         Rejected e \<Rightarrow> Inl e
       | Resolved r \<Rightarrow>
           if \<not> ok r then
             Inl (JsError (''Weather API error: '' @ nat_to_string (status r) @ '' ''
                           @ statusText r))
           else bind (json r) weather_of_json))"

subsection \<open>\<open>fetchForecast\<close>\<close>

record day =
  date :: string
  temp_min :: jsval
  temp_max :: jsval
  day_condition :: jsval
  day_description :: jsval

record forecast =
  forecast_city :: jsval
  forecast_country :: jsval
  days_of :: "day list"

definition first_piece :: "char \<Rightarrow> string \<Rightarrow> string" where
  "first_piece c s = (case split c s of [] \<Rightarrow> [] | p # ps \<Rightarrow> p)"

text \<open>The callback of \<open>data.list.reduce\<close>: a day is added for the first item of each date.\<close>

definition group_by_day :: "day list \<Rightarrow> jsval \<Rightarrow> js_error + day list" where
  "group_by_day acc item =
     bind (get item (Prop ''dt_txt'')) (\<lambda>txt.
     bind (string_receiver ''item.dt_txt'' ''split'' txt) (\<lambda>s.
     let d = first_piece (CHR '' '') s in
     if find (\<lambda>x. date x = d) acc \<noteq> None then Inr acc
     else
       bind (get_path item [Prop ''main'', Prop ''temp_min'']) (\<lambda>tmin.
       bind (get_path item [Prop ''main'', Prop ''temp_max'']) (\<lambda>tmax.
       bind (get_path item [Prop ''weather'', Index 0, Prop ''main'']) (\<lambda>cond.
       bind (get_path item [Prop ''weather'', Index 0, Prop ''description'']) (\<lambda>descr.
       Inr (acc @ [\<lparr>date = d, temp_min = tmin, temp_max = tmax, day_condition = cond,
                    day_description = descr\<rparr>])))))))"

fun reduce :: "('a \<Rightarrow> jsval \<Rightarrow> js_error + 'a) \<Rightarrow> jsval list \<Rightarrow> 'a \<Rightarrow> js_error + 'a" where
  "reduce f [] acc = Inr acc"
| "reduce f (x # xs) acc = bind (f acc x) (reduce f xs)"

definition ToIntegerOrInfinity :: "number \<Rightarrow> int" where
  "ToIntegerOrInfinity n =
     (case n of NaN \<Rightarrow> 0 | Finite r \<Rightarrow> if r < 0 then \<lceil>r\<rceil> else \<lfloor>r\<rfloor>)"

text \<open>\<open>xs.slice(0, e)\<close>: a negative end counts from the end of the array.\<close>

definition slice0 :: "'a list \<Rightarrow> int \<Rightarrow> 'a list" where
  "slice0 xs e =
     (let len = int (length xs) in take (nat (if e < 0 then max (len + e) 0 else min e len)) xs)"

definition forecast_url :: "weather_env \<Rightarrow> jsval \<Rightarrow> jsval \<Rightarrow> string" where
  "forecast_url env c days =
     WEATHER_API_BASE @ ''/forecast?q='' @ encodeURIComponent c @ ''&appid='' @ WEATHER_API_KEY env
     @ ''&units=metric&cnt='' @ Number_toString (num_times (ToNumber days) (Finite 8))"

definition forecast_of_json :: "jsval \<Rightarrow> jsval \<Rightarrow> js_error + forecast" where
  "forecast_of_json data days =
     bind (get data (Prop ''list'')) (\<lambda>l.
     bind (array_receiver ''data.list'' ''reduce'' l) (\<lambda>items.
     bind (reduce group_by_day items []) (\<lambda>dailyData.
     bind (get_path data [Prop ''city'', Prop ''name'']) (\<lambda>nm.
     bind (get_path data [Prop ''city'', Prop ''country'']) (\<lambda>ctry.
     Inr \<lparr>forecast_city = nm, forecast_country = ctry,
          days_of = slice0 dailyData (ToIntegerOrInfinity (ToNumber days))\<rparr>)))))"

definition fetchForecast :: "weather_env \<Rightarrow> jsval \<Rightarrow> jsval \<Rightarrow> string list \<times> (js_error + forecast)" where
  "fetchForecast env c days0 =
     (let days = (if days0 = JUndefined then JNum 5 else days0);
          url = forecast_url env c days in
      ([url],
       case fetch env url of
         Rejected e \<Rightarrow> Inl e
       | Resolved r \<Rightarrow>
           if \<not> ok r then
             Inl (JsError (''Forecast API error: '' @ nat_to_string (status r) @ '' ''
                           @ statusText r))
           else bind (json r) (\<lambda>data. forecast_of_json data days)))"

subsection \<open>The texts\<close>

definition nl :: string where
  "nl = [CHR 0x0A]"

definition rule_line :: string where
  "rule_line = concat (replicate 31 [CHR 0xE2, CHR 0x94, CHR 0x81])"

definition thermometer :: string where
  "thermometer = [CHR 0xF0, CHR 0x9F, CHR 0x8C, CHR 0xA1, CHR 0xEF, CHR 0xB8, CHR 0x8F]"

definition cloud :: string where
  "cloud = [CHR 0xE2, CHR 0x98, CHR 0x81, CHR 0xEF, CHR 0xB8, CHR 0x8F]"

definition droplet :: string where
  "droplet = [CHR 0xF0, CHR 0x9F, CHR 0x92, CHR 0xA7]"

definition dash :: string where
  "dash = [CHR 0xF0, CHR 0x9F, CHR 0x92, CHR 0xA8]"

definition bar_chart :: string where
  "bar_chart = [CHR 0xF0, CHR 0x9F, CHR 0x93, CHR 0x8A]"

definition degree :: string where
  "degree = [CHR 0xC2, CHR 0xB0]"

definition current_weather_text :: "WeatherData \<Rightarrow> string" where
  "current_weather_text weather =
     ''Current Weather in '' @ ToString (city weather) @ '', '' @ ToString (country weather) @ '':''
     @ nl @ rule_line
     @ nl @ thermometer @ ''  Temperature: '' @ Number_toString (temperature weather) @ degree
       @ ''C (feels like '' @ Number_toString (feels_like weather) @ degree @ ''C)''
     @ nl @ cloud @ ''  Condition: '' @ ToString (condition weather) @ '' - ''
       @ ToString (description weather)
     @ nl @ droplet @ '' Humidity: '' @ ToString (humidity weather) @ ''%''
     @ nl @ dash @ '' Wind Speed: '' @ Number_toString (wind_speed weather) @ '' km/h''"

definition day_text :: "nat \<Rightarrow> day \<Rightarrow> string" where
  "day_text index d =
     ''Day '' @ nat_to_string (index + 1) @ '' ('' @ date d @ ''):'' @ nl
     @ ''  '' @ thermometer @ ''  '' @ Number_toString (Math_round (ToNumber (temp_min d))) @ degree
       @ ''C - '' @ Number_toString (Math_round (ToNumber (temp_max d))) @ degree @ ''C'' @ nl
     @ ''  '' @ cloud @ ''  '' @ ToString (day_condition d) @ '' - ''
       @ ToString (day_description d) @ nl @ nl"

definition forecast_text :: "jsval \<Rightarrow> forecast \<Rightarrow> string" where
  "forecast_text days fc =
     ToString days @ ''-Day Weather Forecast for '' @ ToString (forecast_city fc) @ '', ''
     @ ToString (forecast_country fc) @ '':'' @ nl @ rule_line @ nl @ nl
     @ concat (map (\<lambda>(index, d). day_text index d) (enumerate 0 (days_of fc)))"

text \<open>The last line of the comparison: \<open>tempDiff\<close> and \<open>warmer\<close>.\<close>

definition tempDiff :: "WeatherData \<Rightarrow> WeatherData \<Rightarrow> number" where
  "tempDiff weather1 weather2 = Math_abs (num_minus (temperature weather1) (temperature weather2))"

definition warmer :: "WeatherData \<Rightarrow> WeatherData \<Rightarrow> jsval" where
  "warmer weather1 weather2 =
     (if num_greater (temperature weather1) (temperature weather2) then city weather1
      else city weather2)"

definition city_text :: "WeatherData \<Rightarrow> string" where
  "city_text weather =
     ToString (city weather) @ '', '' @ ToString (country weather) @ '':''
     @ nl @ ''  '' @ thermometer @ ''  '' @ Number_toString (temperature weather) @ degree
       @ ''C (feels like '' @ Number_toString (feels_like weather) @ degree @ ''C)''
     @ nl @ ''  '' @ cloud @ ''  '' @ ToString (condition weather) @ '' - ''
       @ ToString (description weather)
     @ nl @ ''  '' @ droplet @ '' '' @ ToString (humidity weather) @ ''% humidity''"

definition comparison_line :: "WeatherData \<Rightarrow> WeatherData \<Rightarrow> string" where
  "comparison_line weather1 weather2 =
     ''  '' @ ToString (warmer weather1 weather2) @ '' is ''
     @ Number_toString (tempDiff weather1 weather2) @ degree @ ''C warmer''"

definition compare_text :: "WeatherData \<Rightarrow> WeatherData \<Rightarrow> string" where
  "compare_text weather1 weather2 =
     ''Weather Comparison:'' @ nl @ rule_line @ nl @ nl
     @ city_text weather1 @ nl @ nl
     @ city_text weather2 @ nl @ nl
     @ bar_chart @ '' Comparison:'' @ nl
     @ comparison_line weather1 weather2"

subsection \<open>The \<open>CallTool\<close> handler\<close>

text \<open>\<open>Promise.all\<close> of two promises: both values in order, or the rejection that comes
  first.\<close>

definition Promise_all :: "bool \<Rightarrow> js_error + 'a \<Rightarrow> js_error + 'b \<Rightarrow> js_error + ('a \<times> 'b)" where
  "Promise_all second_first p q =
     (case p of
        Inr x \<Rightarrow> (case q of Inr y \<Rightarrow> Inr (x, y) | Inl e2 \<Rightarrow> Inl e2)
      | Inl e1 \<Rightarrow> (case q of Inr y \<Rightarrow> Inl e1 | Inl e2 \<Rightarrow> Inl (if second_first then e2 else e1)))"

definition api_key_notice :: envelope where
  "api_key_notice =
     text_result (''Error: OPENWEATHER_API_KEY environment variable not set. ''
       @ ''Please get a free API key from https://openweathermap.org/api'')"

text \<open>The \<open>switch\<close> on the tool name. Every case returns the URLs it requested and either the
  envelope it returns or the value it throws.\<close>

definition weather_switch ::
  "weather_env \<Rightarrow> string \<Rightarrow> (string \<times> jsval) list \<Rightarrow> string list \<times> (js_error + envelope)" where
  "weather_switch env nm args =
     (if nm = ''get_current_weather'' then
        (case fetchWeather env (arg args ''city'') of (calls, r) \<Rightarrow>
           (calls, bind r (\<lambda>weather. Inr (text_result (current_weather_text weather)))))
      else if nm = ''get_weather_forecast'' then
        (let days = (if truthy (arg args ''days'') then arg args ''days'' else JNum 3) in
         case fetchForecast env (arg args ''city'') days of (calls, r) \<Rightarrow>
           (calls, bind r (\<lambda>fc. Inr (text_result (forecast_text days fc)))))
      else if nm = ''compare_weather'' then
        (case fetchWeather env (arg args ''city1'') of (calls1, r1) \<Rightarrow>
         case fetchWeather env (arg args ''city2'') of (calls2, r2) \<Rightarrow>
           (calls1 @ calls2,
            bind (Promise_all (second_rejects_first env) r1 r2) (\<lambda>(weather1, weather2).
              Inr (text_result (compare_text weather1 weather2)))))
      else ([], Inl (JsError (''Unknown tool: '' @ nm))))"

text \<open>The body of the \<open>try\<close> block: the API key guard, then the \<open>switch\<close>.\<close>

definition weather_try ::
  "weather_env \<Rightarrow> string \<Rightarrow> (string \<times> jsval) list \<Rightarrow> string list \<times> (js_error + envelope)" where
  "weather_try env nm args =
     (if WEATHER_API_KEY env = [] then ([], Inr api_key_notice) else weather_switch env nm args)"

text \<open>The handler registered for \<open>CallToolRequestSchema\<close>: the arguments guard stands before
  the \<open>try\<close>, the \<open>catch\<close> turns what the body throws into an envelope.\<close>

definition weather_call_tool :: "weather_env \<Rightarrow> request \<Rightarrow> string list \<times> outcome" where
  "weather_call_tool env req =
     (case arguments req of
        None \<Rightarrow> ([], Thrown (JsError ''Arguments are required for this tool''))
      | Some args \<Rightarrow>
          (case weather_try env (name req) args of
             (calls, Inr e) \<Rightarrow> (calls, Returned e)
           | (calls, Inl error) \<Rightarrow> (calls, Returned (error_envelope error))))"

section \<open>The GitHub diff server\<close>

subsection \<open>\<open>JSON.stringify\<close> with an indentation of two spaces\<close>

definition hex_lower :: "nat \<Rightarrow> char" where
  "hex_lower d = (''0123456789abcdef'' ! d)"

definition quote_char :: "char \<Rightarrow> string" where
  "quote_char c =
     (if c = CHR 0x22 then [CHR 0x5C, CHR 0x22]
      else if c = CHR 0x5C then [CHR 0x5C, CHR 0x5C]
      else if c = CHR 0x08 then [CHR 0x5C, CHR ''b'']
      else if c = CHR 0x0C then [CHR 0x5C, CHR ''f'']
      else if c = CHR 0x0A then [CHR 0x5C, CHR ''n'']
      else if c = CHR 0x0D then [CHR 0x5C, CHR ''r'']
      else if c = CHR 0x09 then [CHR 0x5C, CHR ''t'']
      else if (of_char c :: nat) < 32 then
        [CHR 0x5C, CHR ''u'', CHR ''0'', CHR ''0'', hex_lower (of_char c div 16),
         hex_lower (of_char c mod 16)]
      else [c])"

definition QuoteJSONString :: "string \<Rightarrow> string" where
  "QuoteJSONString s = [CHR 0x22] @ concat (map quote_char s) @ [CHR 0x22]"

fun join :: "string \<Rightarrow> string list \<Rightarrow> string" where
  "join sep [] = []"
| "join sep [x] = x"
| "join sep (x # y # ys) = x @ sep @ join sep (y # ys)"

text \<open>\<open>stringify ind v\<close> serialises \<open>v\<close> at the indentation \<open>ind\<close>. A property whose value is
  \<open>undefined\<close> is left out; an array element that is \<open>undefined\<close> is written \<open>null\<close>.\<close>

fun stringify :: "string \<Rightarrow> jsval \<Rightarrow> string"
  and stringify_items :: "string \<Rightarrow> jsval list \<Rightarrow> string list"
  and stringify_props :: "string \<Rightarrow> (string \<times> jsval) list \<Rightarrow> string list" where
  "stringify ind JUndefined = ''null''"
| "stringify ind JNull = ''null''"
| "stringify ind (JBool b) = (if b then ''true'' else ''false'')"
| "stringify ind (JNum r) = Number_toString (Finite r)"
| "stringify ind (JStr s) = QuoteJSONString s"
| "stringify ind (JArr vs) =
     (case stringify_items (ind @ ''  '') vs of
        [] \<Rightarrow> ''[]''
      | x # xs \<Rightarrow> ''['' @ nl @ join ('','' @ nl) (x # xs) @ nl @ ind @ '']'')"
| "stringify ind (JObj ps) =
     (case stringify_props (ind @ ''  '') ps of
        [] \<Rightarrow> ''{}''
      | x # xs \<Rightarrow> ''{'' @ nl @ join ('','' @ nl) (x # xs) @ nl @ ind @ ''}'')"
| "stringify_items ind [] = []"
| "stringify_items ind (v # vs) = (ind @ stringify ind v) # stringify_items ind vs"
| "stringify_props ind [] = []"
| "stringify_props ind ((k, v) # ps) =
     (if v = JUndefined then stringify_props ind ps
      else (ind @ QuoteJSONString k @ '': '' @ stringify ind v) # stringify_props ind ps)"

definition JSON_stringify :: "jsval \<Rightarrow> string" where
  "JSON_stringify v = stringify [] v"

subsection \<open>The upstream\<close>

text \<open>The request that \<open>axios.get\<close> sends, and the environment of one invocation: the variable
  \<open>GITHUB_TOKEN\<close> and the upstream behind \<open>axios.get\<close>, which rejects (network failure, status
  outside 2xx) or resolves with a response whose \<open>data\<close> is the parsed body.\<close>

record github_request =
  url :: string
  headers :: "(string \<times> string) list"

record github_env =
  GITHUB_TOKEN :: "string option"
  axios_get :: "github_request \<Rightarrow> js_error + jsval"

subsection \<open>The commit list\<close>

text \<open>The callback of \<open>filter\<close> is \<open>!c.commit.message.startsWith("Merge")\<close>; \<open>is_merge\<close> is the
  test under the negation.\<close>

definition is_merge :: "jsval \<Rightarrow> js_error + bool" where
  "is_merge c =
     bind (get_path c [Prop ''commit'', Prop ''message'']) (\<lambda>m.
     bind (string_receiver ''c.commit.message'' ''startsWith'' m) (\<lambda>s.
     Inr (startsWith s ''Merge'')))"

fun filter_commits :: "jsval list \<Rightarrow> js_error + jsval list" where
  "filter_commits [] = Inr []"
| "filter_commits (c # cs) =
     bind (is_merge c) (\<lambda>merge.
     bind (filter_commits cs) (\<lambda>rest.
     Inr (if \<not> merge then c # rest else rest)))"

text \<open>The callback of \<open>map\<close>.\<close>

definition summary :: "jsval \<Rightarrow> js_error + jsval" where
  "summary c =
     bind (get c (Prop ''sha'')) (\<lambda>sha.
     bind (string_receiver ''c.sha'' ''substring'' sha) (\<lambda>s.
     bind (get_path c [Prop ''commit'', Prop ''author'', Prop ''name'']) (\<lambda>author.
     bind (get_path c [Prop ''commit'', Prop ''message'']) (\<lambda>m.
     bind (string_receiver ''c.commit.message'' ''split'' m) (\<lambda>msg.
     bind (get c (Prop ''html_url'')) (\<lambda>u.
     Inr (JObj [(''sha'', JStr (take 7 s)), (''author'', author),
                (''message'', JStr (first_piece (CHR 0x0A) msg)), (''url'', u)])))))))"

fun map_commits :: "jsval list \<Rightarrow> js_error + jsval list" where
  "map_commits [] = Inr []"
| "map_commits (c # cs) =
     bind (summary c) (\<lambda>x.
     bind (map_commits cs) (\<lambda>xs.
     Inr (x # xs)))"

definition commits_of :: "jsval \<Rightarrow> js_error + jsval list" where
  "commits_of data =
     bind (get data (Prop ''commits'')) (\<lambda>cs.
     bind (array_receiver ''response.data.commits'' ''filter'' cs) (\<lambda>all.
     bind (filter_commits all) map_commits))"

text \<open>The object handed to \<open>JSON.stringify\<close>.\<close>

definition report :: "string \<Rightarrow> jsval \<Rightarrow> jsval \<Rightarrow> jsval list \<Rightarrow> jsval" where
  "report repo fromVersion toVersion commits =
     JObj [(''repository'', JStr repo), (''fromVersion'', fromVersion), (''toVersion'', toVersion),
           (''totalCommits'', JNum (of_nat (length commits))), (''commits'', JArr commits)]"

subsection \<open>The \<open>CallTool\<close> handler\<close>

definition compare_request :: "github_env \<Rightarrow> string \<Rightarrow> string \<Rightarrow> jsval \<Rightarrow> jsval \<Rightarrow> github_request" where
  "compare_request env owner repoName fromVersion toVersion =
     \<lparr>url = ''https://api.github.com/repos/'' @ owner @ ''/'' @ repoName @ ''/compare/''
            @ ToString fromVersion @ ''...'' @ ToString toVersion,
      headers =
        [(''Authorization'',
          ''Bearer '' @ (case GITHUB_TOKEN env of None \<Rightarrow> ''undefined'' | Some t \<Rightarrow> t)),
         (''Accept'', ''application/vnd.github+json'')]\<rparr>"

text \<open>The body of the \<open>try\<close> block. The tool name is not consulted.\<close>

definition github_try ::
  "github_env \<Rightarrow> (string \<times> jsval) list \<Rightarrow> github_request list \<times> (js_error + envelope)" where
  "github_try env args =
     (let repo = arg args ''repo''; fromVersion = arg args ''fromVersion'';
          toVersion = arg args ''toVersion'' in
      case string_receiver ''repo'' ''split'' repo of
        Inl e \<Rightarrow> ([], Inl e)
      | Inr r \<Rightarrow>
          (case split (CHR ''/'') r of
             owner # repoName # rest \<Rightarrow>
               if owner = [] \<or> repoName = [] then
                 ([], Inl (JsError ''Invalid repo format. Use owner/repo''))
               else
                 (let req = compare_request env owner repoName fromVersion toVersion in
                  ([req],
                   bind (axios_get env req) (\<lambda>data.
                   bind (commits_of data) (\<lambda>commits.
                   Inr (text_result
                          (JSON_stringify (report r fromVersion toVersion commits)))))))
           | _ \<Rightarrow> ([], Inl (JsError ''Invalid repo format. Use owner/repo''))))"

definition github_call_tool :: "github_env \<Rightarrow> request \<Rightarrow> github_request list \<times> outcome" where
  "github_call_tool env req =
     (case arguments req of
        None \<Rightarrow> ([], Thrown (JsError ''Arguments are required for this tool''))
      | Some args \<Rightarrow>
          (case github_try env args of
             (calls, Inr e) \<Rightarrow> (calls, Returned e)
           | (calls, Inl error) \<Rightarrow> (calls, Returned (error_envelope error))))"

section \<open>The catalogs\<close>

text \<open>What the two \<open>ListTools\<close> handlers return, reduced to the name of each tool and the
  \<open>required\<close> list of its input schema.\<close>

record tool =
  tool_name :: string
  required :: "string list"

definition weather_tools :: "tool list" where
  "weather_tools =
     [\<lparr>tool_name = ''get_current_weather'', required = [''city'']\<rparr>,
      \<lparr>tool_name = ''get_weather_forecast'', required = [''city'']\<rparr>,
      \<lparr>tool_name = ''compare_weather'', required = [''city1'', ''city2'']\<rparr>]"

definition github_tools :: "tool list" where
  "github_tools =
     [\<lparr>tool_name = ''git_changes_between_versions'',
       required = [''repo'', ''fromVersion'', ''toVersion'']\<rparr>]"

section \<open>Stub upstreams\<close>

text \<open>Concrete environments on which the theorems below are instantiated.\<close>

definition response_404 :: fetch_result where
  "response_404 = Resolved \<lparr>status = 404, statusText = ''Not Found'', json = Inr (JObj [])\<rparr>"

definition not_found :: "string \<Rightarrow> fetch_result" where
  "not_found u = response_404"

definition env_no_key :: weather_env where
  "env_no_key = \<lparr>OPENWEATHER_API_KEY = None, fetch = not_found, second_rejects_first = False\<rparr>"

definition env_empty_key :: weather_env where
  "env_empty_key =
     \<lparr>OPENWEATHER_API_KEY = Some [], fetch = not_found, second_rejects_first = False\<rparr>"

definition env_404 :: weather_env where
  "env_404 = \<lparr>OPENWEATHER_API_KEY = Some ''k'', fetch = not_found, second_rejects_first = False\<rparr>"










definition commit_doc :: "string \<Rightarrow> string \<Rightarrow> jsval" where
  "commit_doc sha msg =
     JObj [(''sha'', JStr sha),
           (''commit'', JObj [(''author'', JObj [(''name'', JStr ''Ann'')]), (''message'', JStr msg)]),
           (''html_url'', JStr (''https://github.com/o/r/commit/'' @ sha))]"

definition merge_commit :: jsval where
  "merge_commit = commit_doc ''0123456789abcdef'' ''Merge branch x''"

definition plain_commit :: jsval where
  "plain_commit = commit_doc ''fedcba9876543210'' (''Fix the parser'' @ nl @ ''Details.'')"

definition plain_summary :: jsval where
  "plain_summary =
     JObj [(''sha'', JStr ''fedcba9''), (''author'', JStr ''Ann''),
           (''message'', JStr ''Fix the parser''),
           (''url'', JStr ''https://github.com/o/r/commit/fedcba9876543210'')]"

definition two_commits :: "github_request \<Rightarrow> js_error + jsval" where
  "two_commits r =
     (if url r = ''https://api.github.com/repos/o/r/compare/v1...v2'' then
        Inr (JObj [(''commits'', JArr [merge_commit, plain_commit])])
      else Inl (JsError ''Request failed with status code 404''))"

definition github_env_two :: github_env where
  "github_env_two = \<lparr>GITHUB_TOKEN = Some ''t'', axios_get = two_commits\<rparr>"

definition args_o_r :: "(string \<times> jsval) list" where
  "args_o_r = [(''repo'', JStr ''o/r''), (''fromVersion'', JStr ''v1''), (''toVersion'', JStr ''v2'')]"

section \<open>Basic facts\<close>

lemma bind_Inl [simp]: "bind (Inl e) f = Inl e"
  by (simp add: bind_def)

lemma bind_Inr [simp]: "bind (Inr x) f = f x"
  by (simp add: bind_def)

lemma bind_eq_Inr: "bind m f = Inr y \<Longrightarrow> \<exists>x. m = Inr x \<and> f x = Inr y"
  by (cases m) simp_all




lemma weather_call_tool_Some:
  "weather_call_tool env \<lparr>name = nm, arguments = Some args\<rparr> =
     (fst (weather_try env nm args),
      Returned (case snd (weather_try env nm args) of
                  Inl error \<Rightarrow> error_envelope error
                | Inr e \<Rightarrow> e))"
  by (simp add: weather_call_tool_def split: prod.splits sum.splits)

lemma github_call_tool_Some:
  "github_call_tool env \<lparr>name = nm, arguments = Some args\<rparr> =
     (fst (github_try env args),
      Returned (case snd (github_try env args) of
                  Inl error \<Rightarrow> error_envelope error
                | Inr e \<Rightarrow> e))"
  by (simp add: github_call_tool_def split: prod.splits sum.splits)

lemma weather_try_no_key:
  "WEATHER_API_KEY env = [] \<Longrightarrow> weather_try env nm args = ([], Inr api_key_notice)"
  by (simp add: weather_try_def)

lemma weather_try_key:
  "WEATHER_API_KEY env \<noteq> [] \<Longrightarrow> weather_try env nm args = weather_switch env nm args"
  by (simp add: weather_try_def)


lemma fetchForecast_calls: "fst (fetchForecast env c d) \<noteq> []"
  by (simp add: fetchForecast_def Let_def)

lemma weather_switch_current:
  "weather_switch env ''get_current_weather'' args =
     (fst (fetchWeather env (arg args ''city'')),
      bind (snd (fetchWeather env (arg args ''city'')))
        (\<lambda>weather. Inr (text_result (current_weather_text weather))))"
  by (simp add: weather_switch_def split: prod.splits)


subsection \<open>The ways \<open>fetchWeather\<close> fails\<close>

lemma fetchWeather_network_failure:
  "fetch env (weather_url env c) = Rejected e \<Longrightarrow> fetchWeather env c = ([weather_url env c], Inl e)"
  by (simp add: fetchWeather_def Let_def)

lemma fetchWeather_bad_status:
  "fetch env (weather_url env c) = Resolved r \<Longrightarrow> \<not> ok r \<Longrightarrow>
   fetchWeather env c =
     ([weather_url env c],
      Inl (JsError (''Weather API error: '' @ nat_to_string (status r) @ '' '' @ statusText r)))"
  by (simp add: fetchWeather_def Let_def)

lemma fetchWeather_bad_body:
  "fetch env (weather_url env c) = Resolved r \<Longrightarrow> ok r \<Longrightarrow> json r = Inl e \<Longrightarrow>
   fetchWeather env c = ([weather_url env c], Inl e)"
  by (simp add: fetchWeather_def Let_def)


lemma weather_of_json_null:
  "weather_of_json JNull =
     Inl (JsError (''Cannot read properties of null (reading '' @ [CHR 0x27] @ ''main''
                   @ [CHR 0x27] @ '')''))"
  by (simp add: weather_of_json_def cannot_read_def key_name_def)


lemma current_weather_failure:
  "WEATHER_API_KEY env \<noteq> [] \<Longrightarrow> fetchWeather env (arg args ''city'') = (calls, Inl e) \<Longrightarrow>
   weather_try env ''get_current_weather'' args = (calls, Inl e)"
  by (simp add: weather_try_key weather_switch_current)

subsection \<open>Arguments that are not there\<close>








lemma cannot_read_split:
  "cannot_read JUndefined ''split'' = JsError (''Cannot read properties of undefined (reading '' @ [CHR 0x27] @ ''split'' @ [CHR 0x27] @ '')'')"
  by (simp add: cannot_read_def)


lemma github_try_repo:
  assumes "map_of args ''repo'' = Some (JStr r)" and "split (CHR ''/'') r = owner # repoName # rest"
    and "owner \<noteq> []" and "repoName \<noteq> []"
  shows "github_try env args =
     ([compare_request env owner repoName (arg args ''fromVersion'') (arg args ''toVersion'')],
      bind (axios_get env (compare_request env owner repoName (arg args ''fromVersion'') (arg args ''toVersion''))) (\<lambda>data.
      bind (commits_of data) (\<lambda>commits.
        Inr (text_result (JSON_stringify (report r (arg args ''fromVersion'') (arg args ''toVersion'') commits))))))"
  using assms by (simp add: github_try_def arg_def own_property_def Let_def)

subsection \<open>The ways the commit comparison fails\<close>

lemma github_upstream_failure:
  assumes "map_of args ''repo'' = Some (JStr r)" and "split (CHR ''/'') r = owner # repoName # rest"
    and "owner \<noteq> []" and "repoName \<noteq> []"
    and "axios_get env (compare_request env owner repoName (arg args ''fromVersion'')
           (arg args ''toVersion'')) = Inl e"
  shows "github_try env args =
     ([compare_request env owner repoName (arg args ''fromVersion'') (arg args ''toVersion'')],
      Inl e)"
  using assms(5) by (simp add: github_try_repo [OF assms(1-4)])

lemma github_invalid_repo:
  "map_of args ''repo'' = Some (JStr ''owner-only'') \<Longrightarrow>
   github_try env args = ([], Inl (JsError ''Invalid repo format. Use owner/repo''))"
proof -
  have "split (CHR ''/'') ''owner-only'' = [''owner-only'']"
    by code_simp
  then show "map_of args ''repo'' = Some (JStr ''owner-only'') \<Longrightarrow>
      github_try env args = ([], Inl (JsError ''Invalid repo format. Use owner/repo''))"
    by (simp add: github_try_def arg_def own_property_def)
qed

lemma commits_of_null:
  "commits_of JNull =
     Inl (JsError (''Cannot read properties of null (reading '' @ [CHR 0x27] @ ''commits''
                   @ [CHR 0x27] @ '')''))"
  by (simp add: commits_of_def cannot_read_def key_name_def)

lemma commits_of_no_list:
  "commits_of (JObj [(''message'', JStr ''Not Found'')]) =
     Inl (JsError (''Cannot read properties of undefined (reading '' @ [CHR 0x27] @ ''filter''
                   @ [CHR 0x27] @ '')''))"
  by (simp add: commits_of_def cannot_read_def key_name_def own_property_def)

lemma JSON_stringify_example:
  "JSON_stringify (JObj [(''totalCommits'', JNum 1), (''commits'', JArr []),
                         (''url'', JUndefined)]) =
     ''{'' @ nl
     @ ''  '' @ [CHR 0x22] @ ''totalCommits'' @ [CHR 0x22] @ '': 1,'' @ nl
     @ ''  '' @ [CHR 0x22] @ ''commits'' @ [CHR 0x22] @ '': []'' @ nl
     @ ''}''"
  by code_simp

subsection \<open>The comparison and the commit list\<close>




text \<open>What \<open>filter\<close> keeps are the commits whose message does not start with \<open>Merge\<close>, in
  their order.\<close>

lemma filter_commits_filter:
  "filter_commits cs = Inr ks \<Longrightarrow> ks = filter (\<lambda>c. is_merge c = Inr False) cs"
proof (induction cs arbitrary: ks)
  case Nil
  then show ?case by simp
next
  case (Cons c cs)
  from Cons.prems obtain merge rest where m: "is_merge c = Inr merge"
    and r: "filter_commits cs = Inr rest" and k: "ks = (if \<not> merge then c # rest else rest)"
    by (auto dest!: bind_eq_Inr)
  from Cons.IH [OF r] m k show ?case by auto
qed

lemma split_o_r: "split (CHR ''/'') ''o/r'' = [''o'', ''r'']"
  by code_simp






section \<open>Failures inside the handler\<close>

text \<open>
  Claim C1. In both servers, whatever the body of the \<open>try\<close> block throws (a rejected
  \<open>fetch\<close>, a status that is not a success, a malformed document, any thrown error) is caught:
  the handler returns an envelope with exactly one text block reading \<open>Error: \<close> followed by
  the message of the failure, and \<open>isError = true\<close>. With an arguments object present the
  handler never rejects, so no failure of the body reaches the protocol library.
\<close>

theorem handler_failure_caught:
  "(weather_try env nm args = (calls, Inl error) \<longrightarrow>
      weather_call_tool env \<lparr>name = nm, arguments = Some args\<rparr> =
        (calls,
         Returned \<lparr>content = [\<lparr>ctype = ''text'', ctext = ''Error: '' @ errorMessage error\<rparr>],
                   isError = Some True\<rparr>))
   \<and> (github_try genv gargs = (gcalls, Inl gerror) \<longrightarrow>
      github_call_tool genv \<lparr>name = gnm, arguments = Some gargs\<rparr> =
        (gcalls,
         Returned \<lparr>content = [\<lparr>ctype = ''text'', ctext = ''Error: '' @ errorMessage gerror\<rparr>],
                   isError = Some True\<rparr>))
   \<and> snd (weather_call_tool env \<lparr>name = nm, arguments = Some args\<rparr>) \<noteq> Thrown e
   \<and> snd (github_call_tool genv \<lparr>name = gnm, arguments = Some gargs\<rparr>) \<noteq> Thrown e"
proof (intro conjI impI)
  assume "weather_try env nm args = (calls, Inl error)"
  then show "weather_call_tool env \<lparr>name = nm, arguments = Some args\<rparr> =
      (calls,
       Returned \<lparr>content = [\<lparr>ctype = ''text'', ctext = ''Error: '' @ errorMessage error\<rparr>],
                 isError = Some True\<rparr>)"
    by (simp add: weather_call_tool_Some error_envelope_def)
next
  assume "github_try genv gargs = (gcalls, Inl gerror)"
  then show "github_call_tool genv \<lparr>name = gnm, arguments = Some gargs\<rparr> =
      (gcalls,
       Returned \<lparr>content = [\<lparr>ctype = ''text'', ctext = ''Error: '' @ errorMessage gerror\<rparr>],
                 isError = Some True\<rparr>)"
    by (simp add: github_call_tool_Some error_envelope_def)
next
  show "snd (weather_call_tool env \<lparr>name = nm, arguments = Some args\<rparr>) \<noteq> Thrown e"
    by (simp add: weather_call_tool_Some)
next
  show "snd (github_call_tool genv \<lparr>name = gnm, arguments = Some gargs\<rparr>) \<noteq> Thrown e"
    by (simp add: github_call_tool_Some)
qed

theorem handler_failure_caught_witness:
  "weather_call_tool env_404
     \<lparr>name = ''get_current_weather'', arguments = Some [(''city'', JStr ''Paris'')]\<rparr> =
     ([''https://api.openweathermap.org/data/2.5/weather?q=Paris&appid=k&units=metric''],
      Returned \<lparr>content = [\<lparr>ctype = ''text'', ctext = ''Error: Weather API error: 404 Not Found''\<rparr>],
                isError = Some True\<rparr>)
   \<and> github_call_tool github_env_two
     \<lparr>name = ''git_changes_between_versions'', arguments = Some [(''repo'', JStr ''o/r'')]\<rparr> =
     ([\<lparr>url = ''https://api.github.com/repos/o/r/compare/undefined...undefined'',
        headers = [(''Authorization'', ''Bearer t''), (''Accept'', ''application/vnd.github+json'')]\<rparr>],
      Returned \<lparr>content = [\<lparr>ctype = ''text'',
                            ctext = ''Error: Request failed with status code 404''\<rparr>],
                isError = Some True\<rparr>)"
proof -
  have w: "weather_try env_404 ''get_current_weather'' [(''city'', JStr ''Paris'')] =
      ([''https://api.openweathermap.org/data/2.5/weather?q=Paris&appid=k&units=metric''],
       Inl (JsError ''Weather API error: 404 Not Found''))"
    by code_simp
  have g: "github_try github_env_two [(''repo'', JStr ''o/r'')] =
      ([\<lparr>url = ''https://api.github.com/repos/o/r/compare/undefined...undefined'',
         headers = [(''Authorization'', ''Bearer t''),
                    (''Accept'', ''application/vnd.github+json'')]\<rparr>],
       Inl (JsError ''Request failed with status code 404''))"
    by code_simp
  show ?thesis
    using w g
      handler_failure_caught [of env_404 "''get_current_weather''" "[(''city'', JStr ''Paris'')]"
        _ "JsError ''Weather API error: 404 Not Found''" github_env_two "[(''repo'', JStr ''o/r'')]"
        _ "JsError ''Request failed with status code 404''" "''git_changes_between_versions''"]
    by (simp add: errorMessage_def)
qed

section \<open>A request without arguments\<close>

text \<open>
  Claim C2, as amended. In both servers the guard \<open>if (!args) throw ...\<close> stands before the
  \<open>try\<close> block. A \<open>CallTool\<close> request without an arguments object therefore makes the handler
  reject with the error \<open>Arguments are required for this tool\<close>, whatever the tool name: no
  envelope is built, no handler logic runs and no outbound call is attempted.
\<close>

theorem missing_arguments_thrown:
  assumes "arguments req = None"
  shows "weather_call_tool env req = ([], Thrown (JsError ''Arguments are required for this tool''))
       \<and> github_call_tool genv req =
           ([], Thrown (JsError ''Arguments are required for this tool''))"
  using assms by (simp add: weather_call_tool_def github_call_tool_def)

theorem missing_arguments_thrown_witness:
  "arguments \<lparr>name = ''compare_weather'', arguments = None\<rparr> = None
   \<and> weather_call_tool env_no_key \<lparr>name = ''compare_weather'', arguments = None\<rparr> =
       ([], Thrown (JsError ''Arguments are required for this tool''))
   \<and> github_call_tool github_env_two \<lparr>name = ''compare_weather'', arguments = None\<rparr> =
       ([], Thrown (JsError ''Arguments are required for this tool''))"
  using missing_arguments_thrown
    [of "\<lparr>name = ''compare_weather'', arguments = None\<rparr>" env_no_key github_env_two]
  by simp

text \<open>The claim as stated asks for an envelope with \<open>isError = true\<close>; the handlers reject
  instead.\<close>

theorem missing_arguments_counterexample:
  "weather_call_tool env_404 \<lparr>name = ''get_current_weather'', arguments = None\<rparr> =
     ([], Thrown (JsError ''Arguments are required for this tool''))
   \<and> github_call_tool github_env_two
       \<lparr>name = ''git_changes_between_versions'', arguments = None\<rparr> =
     ([], Thrown (JsError ''Arguments are required for this tool''))"
  by (simp add: weather_call_tool_def github_call_tool_def)

section \<open>The API key guard and the dispatch on the tool name\<close>

text \<open>
  Claim C7. When \<open>get_current_weather\<close> is called with arguments and the variable
  \<open>OPENWEATHER_API_KEY\<close> is unset or empty, the handler returns the text that tells the caller
  to obtain an API key, without an \<open>isError\<close> property, and requests nothing.
\<close>

theorem missing_api_key_notice:
  assumes "OPENWEATHER_API_KEY env = None \<or> OPENWEATHER_API_KEY env = Some []"
  shows "weather_call_tool env \<lparr>name = ''get_current_weather'', arguments = Some args\<rparr> =
           ([],
            Returned \<lparr>content = [\<lparr>ctype = ''text'',
               ctext = ''Error: OPENWEATHER_API_KEY environment variable not set. ''
                 @ ''Please get a free API key from https://openweathermap.org/api''\<rparr>],
               isError = None\<rparr>)"
proof -
  from assms have "WEATHER_API_KEY env = []"
    by (auto simp: WEATHER_API_KEY_def)
  then show ?thesis
    by (simp add: weather_call_tool_Some weather_try_no_key api_key_notice_def text_result_def)
qed

theorem missing_api_key_notice_witness:
  "(OPENWEATHER_API_KEY env_no_key = None \<or> OPENWEATHER_API_KEY env_no_key = Some [])
   \<and> weather_call_tool env_no_key
       \<lparr>name = ''get_current_weather'', arguments = Some [(''city'', JStr ''Paris'')]\<rparr> =
       ([],
        Returned \<lparr>content = [\<lparr>ctype = ''text'',
           ctext = ''Error: OPENWEATHER_API_KEY environment variable not set. ''
             @ ''Please get a free API key from https://openweathermap.org/api''\<rparr>],
           isError = None\<rparr>)"
proof -
  have h: "OPENWEATHER_API_KEY env_no_key = None \<or> OPENWEATHER_API_KEY env_no_key = Some []"
    by (simp add: env_no_key_def)
  show ?thesis
    using h missing_api_key_notice [OF h, of "[(''city'', JStr ''Paris'')]"] by simp
qed

text \<open>
  Claim C10. In the weather server the API key guard precedes the \<open>switch\<close>: with an empty key,
  every request that has an arguments object, whatever its tool name, gets the API key notice
  without \<open>isError\<close>; the \<open>Unknown tool\<close> envelope is not what it gets.
\<close>

theorem api_key_guard_precedes_dispatch:
  assumes "WEATHER_API_KEY env = []"
  shows "weather_call_tool env \<lparr>name = nm, arguments = Some args\<rparr> =
           ([],
            Returned \<lparr>content = [\<lparr>ctype = ''text'',
               ctext = ''Error: OPENWEATHER_API_KEY environment variable not set. ''
                 @ ''Please get a free API key from https://openweathermap.org/api''\<rparr>],
               isError = None\<rparr>)
       \<and> snd (weather_call_tool env \<lparr>name = nm, arguments = Some args\<rparr>) \<noteq>
           Returned (error_envelope (JsError (''Unknown tool: '' @ nm)))"
  using assms
  by (simp add: weather_call_tool_Some weather_try_no_key api_key_notice_def text_result_def
      error_envelope_def)

theorem api_key_guard_precedes_dispatch_witness:
  "WEATHER_API_KEY env_empty_key = []
   \<and> weather_call_tool env_empty_key \<lparr>name = ''no_such_tool'', arguments = Some []\<rparr> =
       ([],
        Returned \<lparr>content = [\<lparr>ctype = ''text'',
           ctext = ''Error: OPENWEATHER_API_KEY environment variable not set. ''
             @ ''Please get a free API key from https://openweathermap.org/api''\<rparr>],
           isError = None\<rparr>)"
proof -
  have h: "WEATHER_API_KEY env_empty_key = []"
    by (simp add: WEATHER_API_KEY_def env_empty_key_def)
  show ?thesis
    using h api_key_guard_precedes_dispatch [OF h, of "''no_such_tool''" "[]"] by simp
qed

text \<open>
  Claim C4, as amended. In the weather server, when an API key is configured, a request with an
  arguments object that names a tool outside the catalog gets an envelope with
  \<open>isError = true\<close> and the text \<open>Error: Unknown tool: <name>\<close>, and nothing is requested
  upstream.
\<close>

theorem unknown_tool_rejected:
  assumes "WEATHER_API_KEY env \<noteq> []" and "nm \<notin> set (map tool_name weather_tools)"
  shows "weather_call_tool env \<lparr>name = nm, arguments = Some args\<rparr> =
           ([],
            Returned \<lparr>content = [\<lparr>ctype = ''text'', ctext = ''Error: Unknown tool: '' @ nm\<rparr>],
                      isError = Some True\<rparr>)"
  using assms
  by (simp add: weather_call_tool_Some weather_try_def weather_switch_def weather_tools_def
      error_envelope_def errorMessage_def)

theorem unknown_tool_rejected_witness:
  "WEATHER_API_KEY env_404 \<noteq> [] \<and> ''nope'' \<notin> set (map tool_name weather_tools)
   \<and> weather_call_tool env_404 \<lparr>name = ''nope'', arguments = Some []\<rparr> =
       ([],
        Returned \<lparr>content = [\<lparr>ctype = ''text'', ctext = ''Error: Unknown tool: nope''\<rparr>],
                  isError = Some True\<rparr>)"
proof -
  have k: "WEATHER_API_KEY env_404 \<noteq> []"
    by (simp add: WEATHER_API_KEY_def env_404_def)
  have n: "''nope'' \<notin> set (map tool_name weather_tools)"
    by (simp add: weather_tools_def)
  show ?thesis
    using k n unknown_tool_rejected [OF k n, of "[]"] by simp
qed

text \<open>The claim as stated fails where no API key is configured: the notice comes back without
  \<open>isError\<close>. It fails in the GitHub diff server as well, which never looks at the tool name:
  a name outside its catalog runs the comparison and requests the upstream.\<close>

theorem unknown_tool_counterexample:
  "weather_call_tool env_no_key \<lparr>name = ''nope'', arguments = Some []\<rparr> =
     ([],
      Returned \<lparr>content = [\<lparr>ctype = ''text'',
         ctext = ''Error: OPENWEATHER_API_KEY environment variable not set. ''
           @ ''Please get a free API key from https://openweathermap.org/api''\<rparr>],
         isError = None\<rparr>)
   \<and> ''nope'' \<notin> set (map tool_name github_tools)
   \<and> github_call_tool github_env_two \<lparr>name = ''nope'', arguments = Some args_o_r\<rparr> =
     ([\<lparr>url = ''https://api.github.com/repos/o/r/compare/v1...v2'',
        headers = [(''Authorization'', ''Bearer t''), (''Accept'', ''application/vnd.github+json'')]\<rparr>],
      Returned (text_result (JSON_stringify
        (report ''o/r'' (JStr ''v1'') (JStr ''v2'') [plain_summary]))))"
proof -
  have "weather_call_tool env_no_key \<lparr>name = ''nope'', arguments = Some []\<rparr> =
     ([],
      Returned \<lparr>content = [\<lparr>ctype = ''text'',
         ctext = ''Error: OPENWEATHER_API_KEY environment variable not set. ''
           @ ''Please get a free API key from https://openweathermap.org/api''\<rparr>],
         isError = None\<rparr>)"
    by (simp add: weather_call_tool_Some weather_try_def WEATHER_API_KEY_def env_no_key_def
        api_key_notice_def text_result_def)
  moreover have "''nope'' \<notin> set (map tool_name github_tools)"
    by (simp add: github_tools_def)
  moreover have "github_call_tool github_env_two \<lparr>name = ''nope'', arguments = Some args_o_r\<rparr> =
     ([\<lparr>url = ''https://api.github.com/repos/o/r/compare/v1...v2'',
        headers = [(''Authorization'', ''Bearer t''), (''Accept'', ''application/vnd.github+json'')]\<rparr>],
      Returned (text_result (JSON_stringify
        (report ''o/r'' (JStr ''v1'') (JStr ''v2'') [plain_summary]))))"
    by code_simp
  ultimately show ?thesis by simp
qed

section \<open>Required fields\<close>




section \<open>The comparison of two cities\<close>







section \<open>The commits between two versions\<close>

text \<open>
  Claim C5. \<open>git_changes_between_versions\<close> is called with \<open>repo = "o/r"\<close>,
  \<open>fromVersion = "v1"\<close> and \<open>toVersion = "v2"\<close>, and the compare endpoint answers with two
  commits, exactly one of which has a message that starts with \<open>Merge\<close>. Then the text of the
  returned envelope is the JSON document whose \<open>commits\<close> array holds the summary of the other
  commit alone and whose \<open>totalCommits\<close> is 1: the merge commit is removed before the count is
  taken.
\<close>

theorem merge_commits_filtered:
  assumes "axios_get env (compare_request env ''o'' ''r'' (JStr ''v1'') (JStr ''v2'')) = Inr data"
    and "get data (Prop ''commits'') = Inr (JArr [c1, c2])"
    and "is_merge c1 = Inr m1" and "is_merge c2 = Inr m2" and "m1 \<noteq> m2"
    and "summary (if m1 then c2 else c1) = Inr s"
  shows "github_call_tool env
           \<lparr>name = ''git_changes_between_versions'',
            arguments = Some [(''repo'', JStr ''o/r''), (''fromVersion'', JStr ''v1''),
                              (''toVersion'', JStr ''v2'')]\<rparr> =
         ([compare_request env ''o'' ''r'' (JStr ''v1'') (JStr ''v2'')],
          Returned \<lparr>content = [\<lparr>ctype = ''text'', ctext = JSON_stringify
            (JObj [(''repository'', JStr ''o/r''), (''fromVersion'', JStr ''v1''),
                   (''toVersion'', JStr ''v2''), (''totalCommits'', JNum 1),
                   (''commits'', JArr [s])])\<rparr>], isError = None\<rparr>)"
proof -
  have "commits_of data = Inr [s]"
    using assms(2-6) by (cases m1; cases m2; simp add: commits_of_def)
  moreover have "github_try env [(''repo'', JStr ''o/r''), (''fromVersion'', JStr ''v1''),
                              (''toVersion'', JStr ''v2'')] =
     ([compare_request env ''o'' ''r'' (JStr ''v1'') (JStr ''v2'')],
      bind (axios_get env (compare_request env ''o'' ''r'' (JStr ''v1'') (JStr ''v2''))) (\<lambda>data.
      bind (commits_of data) (\<lambda>commits.
        Inr (text_result (JSON_stringify (report ''o/r'' (JStr ''v1'') (JStr ''v2'') commits))))))"
    using github_try_repo [of "[(''repo'', JStr ''o/r''), (''fromVersion'', JStr ''v1''),
                              (''toVersion'', JStr ''v2'')]" "''o/r''" "''o''" "''r''" "[]" env]
    by (simp add: split_o_r arg_def own_property_def)
  ultimately show ?thesis
    using assms(1) by (simp add: github_call_tool_Some report_def text_result_def)
qed

theorem merge_commits_filtered_witness:
  "github_call_tool github_env_two
           \<lparr>name = ''git_changes_between_versions'',
            arguments = Some [(''repo'', JStr ''o/r''), (''fromVersion'', JStr ''v1''),
                              (''toVersion'', JStr ''v2'')]\<rparr> =
         ([\<lparr>url = ''https://api.github.com/repos/o/r/compare/v1...v2'',
            headers = [(''Authorization'', ''Bearer t''),
                     (''Accept'', ''application/vnd.github+json'')]\<rparr>],
          Returned \<lparr>content = [\<lparr>ctype = ''text'', ctext = JSON_stringify
            (JObj [(''repository'', JStr ''o/r''), (''fromVersion'', JStr ''v1''),
                   (''toVersion'', JStr ''v2''), (''totalCommits'', JNum 1),
                   (''commits'', JArr [JObj [(''sha'', JStr ''fedcba9''), (''author'', JStr ''Ann''),
           (''message'', JStr ''Fix the parser''),
           (''url'', JStr ''https://github.com/o/r/commit/fedcba9876543210'')]])])\<rparr>], isError = None\<rparr>)"
proof -
  have q: "compare_request github_env_two ''o'' ''r'' (JStr ''v1'') (JStr ''v2'') =
      \<lparr>url = ''https://api.github.com/repos/o/r/compare/v1...v2'',
       headers = [(''Authorization'', ''Bearer t''),
                  (''Accept'', ''application/vnd.github+json'')]\<rparr>"
    by (simp add: compare_request_def github_env_two_def)
  have a: "axios_get github_env_two (compare_request github_env_two ''o'' ''r'' (JStr ''v1'') (JStr ''v2''))
       = Inr (JObj [(''commits'', JArr [merge_commit, plain_commit])])"
    by code_simp
  have g: "get (JObj [(''commits'', JArr [merge_commit, plain_commit])]) (Prop ''commits'') = Inr (JArr [merge_commit, plain_commit])"
    by (simp add: own_property_def key_name_def)
  have m1: "is_merge merge_commit = Inr True" by code_simp
  have m2: "is_merge plain_commit = Inr False" by code_simp
  have s: "summary (if True then plain_commit else merge_commit) = Inr plain_summary" by code_simp
  show ?thesis
    using merge_commits_filtered [OF a g m1 m2 _ s]
    by (simp add: q plain_summary_def)
qed

end
